theory Spec2Isabelle
  imports Main
begin

section \<open>Values, requests and responses\<close>

text \<open>
  The values that travel in the query parameters of a request: Python strings, integers,
  booleans and lists of strings (the API key is a string or a list of strings).
\<close>

datatype pyval = PNone | PStr string | PInt int | PBool bool | PStrList "string list"

text \<open>
  The value of \<open>response.json()\<close>. An object keeps its members in the order of the
  document; a parsed Python dict holds each key once.
\<close>

datatype json = JNull | JBool bool | JNum int | JStr string | JArr "json list"
  | JObj "(string \<times> json) list"

type_synonym params = "(string \<times> pyval) list"

record request =
  url :: string
  query :: params

text \<open>
  A response as the code reads it: its status code and its body parsed as JSON
  (\<open>None\<close> when the body is not a JSON document).
\<close>

record response =
  status_code :: int
  body :: "json option"

datatype net_error = ConnectionError | Timeout

type_synonym reply = "net_error + response"

text \<open>
  The exceptions of the code. \<open>ErrorStatus c\<close> is \<open>Exception(f"Error: {c}")\<close> of
  \<open>get_report\<close>; \<open>ErrorBatch c offset batch_size\<close> is the exception of
  \<open>get_report_batch\<close>, whose message carries the status, the offset and the batch size.
\<close>

datatype error =
    ErrorStatus int
  | ErrorBatch int int int
  | RequestException net_error
  | TypeError
  | ValueError
  | KeyError
  | JSONDecodeError
  | UnboundLocalError
  | AttributeError

section \<open>The world: the remote service, the requests sent, the time slept\<close>

text \<open>
  The remote service is a state machine that answers one request at a time, with a
  response or with a network error. The world records every request with its answer, in
  order, and every delay slept.
\<close>

type_synonym 's server = "'s \<Rightarrow> request \<Rightarrow> reply \<times> 's"

record 's world =
  server_state :: 's
  trace :: "(request \<times> reply) list"
  sleeps :: "int list"

definition http_get :: "'s server \<Rightarrow> request \<Rightarrow> 's world \<Rightarrow> reply \<times> 's world" where
  "http_get srv rq w =
     (case srv (server_state w) rq of
        (rp, s') \<Rightarrow> (rp, w\<lparr>server_state := s', trace := trace w @ [(rq, rp)]\<rparr>))"

text \<open>\<open>time.sleep\<close> raises \<open>ValueError\<close> on a negative delay.\<close>

definition time_sleep :: "int \<Rightarrow> 's world \<Rightarrow> (error + unit) \<times> 's world" where
  "time_sleep secs w =
     (if secs < 0 then (Inl ValueError, w) else (Inr (), w\<lparr>sleeps := sleeps w @ [secs]\<rparr>))"

definition attempts :: "'s world \<Rightarrow> nat" where
  "attempts w = length (trace w)"

section \<open>Dictionaries\<close>

text \<open>
  A Python dict as an association list in insertion order. \<open>dict_set\<close> is
  \<open>d[k] = v\<close>: an existing key keeps its place and takes the new value, a new key goes
  to the end. \<open>dict_merge d kw\<close> is \<open>{**d, **kw}\<close>.
\<close>

fun dict_set :: "'k \<Rightarrow> 'v \<Rightarrow> ('k \<times> 'v) list \<Rightarrow> ('k \<times> 'v) list" where
  "dict_set k v [] = [(k, v)]"
| "dict_set k v ((k', v') # d) = (if k' = k then (k, v) # d else (k', v') # dict_set k v d)"

fun dict_merge :: "('k \<times> 'v) list \<Rightarrow> ('k \<times> 'v) list \<Rightarrow> ('k \<times> 'v) list" where
  "dict_merge d [] = d"
| "dict_merge d ((k, v) # kw) = dict_merge (dict_set k v d) kw"

definition dict_get :: "('k \<times> 'v) list \<Rightarrow> 'k \<Rightarrow> 'v option" where
  "dict_get d k = map_of d k"

section \<open>The table adapter\<close>

text \<open>
  \<open>response.json()["results"]\<close>: the body must parse, and must be an object with the
  key; subscripting any other JSON value with a string raises \<open>TypeError\<close>.
\<close>

fun json_subscript :: "json \<Rightarrow> string \<Rightarrow> error + json" where
  "json_subscript (JObj kvs) k = (case map_of kvs k of None \<Rightarrow> Inl KeyError | Some v \<Rightarrow> Inr v)"
| "json_subscript _ k = Inl TypeError"

definition response_json :: "response \<Rightarrow> error + json" where
  "response_json r = (case body r of None \<Rightarrow> Inl JSONDecodeError | Some j \<Rightarrow> Inr j)"

definition response_field :: "response \<Rightarrow> string \<Rightarrow> error + json" where
  "response_field r k = (case response_json r of Inl e \<Rightarrow> Inl e | Inr j \<Rightarrow> json_subscript j k)"

text \<open>\<open>len(results)\<close>.\<close>

fun py_len :: "json \<Rightarrow> error + nat" where
  "py_len (JArr xs) = Inr (length xs)"
| "py_len (JObj kvs) = Inr (length kvs)"
| "py_len (JStr s) = Inr (length s)"
| "py_len _ = Inl TypeError"

text \<open>
  A table is the ordered sequence of its row records. \<open>pd_DataFrame\<close> is
  \<open>pd.DataFrame(results)\<close> on the payloads of the response contract: an array gives one
  row per element, \<open>None\<close> gives the empty table, and a scalar is rejected by pandas with
  \<open>ValueError\<close>. The column-wise construction that pandas applies to a dict payload is
  outside the contract and is reported as the same error.
\<close>

datatype table = DataFrame (records: "json list")

fun pd_DataFrame :: "json \<Rightarrow> error + table" where
  "pd_DataFrame (JArr rs) = Inr (DataFrame rs)"
| "pd_DataFrame JNull = Inr (DataFrame [])"
| "pd_DataFrame _ = Inl ValueError"

definition nrows :: "table \<Rightarrow> nat" where
  "nrows t = length (records t)"




section \<open>RevenueReport\<close>

text \<open>
  The clock enters through \<open>day_ago n\<close>, the text of
  \<open>(datetime.now() - timedelta(days=n)).strftime("%Y-%m-%d")\<close>.
\<close>

type_synonym clock = "nat \<Rightarrow> string"

definition ENDPOINT :: string where
  "ENDPOINT = ''https://r.applovin.com/maxReport''"

text \<open>\<open>not x\<close> for an optional string: \<open>None\<close> and the empty string are falsy.\<close>

fun falsy :: "string option \<Rightarrow> bool" where
  "falsy None = True"
| "falsy (Some s) = (s = [])"

text \<open>
  Lines 55-57 and 110-112: when either date is falsy, both are replaced by the defaults.
\<close>

definition default_dates :: "clock \<Rightarrow> string option \<Rightarrow> string option \<Rightarrow> string option \<times> string option" where
  "default_dates day_ago sd ed =
     (if falsy sd \<or> falsy ed
      then (Some (day_ago 2), Some (day_ago 1))
      else (sd, ed))"

fun opt_str :: "string option \<Rightarrow> pyval" where
  "opt_str None = PNone"
| "opt_str (Some s) = PStr s"

fun str_join :: "string \<Rightarrow> string list \<Rightarrow> string" where
  "str_join sep [] = []"
| "str_join sep [x] = x"
| "str_join sep (x # y # ys) = x @ sep @ str_join sep (y # ys)"

text \<open>\<open>",".join(columns)\<close>: \<open>columns\<close> defaults to \<open>None\<close>, which raises \<open>TypeError\<close>.\<close>

fun join_columns :: "string list option \<Rightarrow> error + string" where
  "join_columns None = Inl TypeError"
| "join_columns (Some cs) = Inr (str_join '','' cs)"

definition report_params ::
  "pyval \<Rightarrow> string option \<Rightarrow> string option \<Rightarrow> string \<Rightarrow> int \<Rightarrow> params \<Rightarrow> params" where
  "report_params api_key sd ed cols limit kw =
     dict_merge
       [(''api_key'', api_key), (''start'', opt_str sd), (''end'', opt_str ed),
        (''columns'', PStr cols), (''format'', PStr ''json''), (''limit'', PInt limit)]
       kw"

text \<open>
  The loop of lines 69-76, with \<open>n\<close> iterations left and \<open>prev\<close> the variable
  \<open>response\<close> (unbound before the first iteration). A network error raised by
  \<open>requests.get\<close> is not caught. Line 79 reads \<open>response\<close> after the loop.
\<close>

fun report_loop ::
  "'s server \<Rightarrow> request \<Rightarrow> int \<Rightarrow> nat \<Rightarrow> response option \<Rightarrow> 's world \<Rightarrow> (error + table) \<times> 's world" where
  "report_loop srv rq retry_interval 0 prev w =
     (case prev of
        None \<Rightarrow> (Inl UnboundLocalError, w)
      | Some r \<Rightarrow> (Inl (ErrorStatus (status_code r)), w))"
| "report_loop srv rq retry_interval (Suc n) prev w =
     (case http_get srv rq w of
        (Inl e, w1) \<Rightarrow> (Inl (RequestException e), w1)
      | (Inr r, w1) \<Rightarrow>
          if status_code r = 200 then
            (case response_field r ''results'' of
               Inl e \<Rightarrow> (Inl e, w1)
             | Inr results \<Rightarrow> (pd_DataFrame results, w1))
          else
            (case time_sleep retry_interval w1 of
               (Inl e, w2) \<Rightarrow> (Inl e, w2)
             | (Inr u, w2) \<Rightarrow> report_loop srv rq retry_interval n (Some r) w2))"

record report_args =
  start_date :: "string option"
  end_date :: "string option"
  columns :: "string list option"
  max_retries :: int
  retry_interval :: int
  kwargs :: params

definition get_report ::
  "clock \<Rightarrow> 's server \<Rightarrow> pyval \<Rightarrow> report_args \<Rightarrow> int \<Rightarrow> 's world \<Rightarrow> (error + table) \<times> 's world" where
  "get_report day_ago srv api_key a limit w =
     (case default_dates day_ago (start_date a) (end_date a) of
        (sd, ed) \<Rightarrow>
          (case join_columns (columns a) of
             Inl e \<Rightarrow> (Inl e, w)
           | Inr cols \<Rightarrow>
               report_loop srv
                 \<lparr>url = ENDPOINT, query = report_params api_key sd ed cols limit (kwargs a)\<rparr>
                 (retry_interval a) (nat (max_retries a + 1)) None w))"

subsection \<open>The paginated fetch\<close>

definition batch_params ::
  "pyval \<Rightarrow> string option \<Rightarrow> string option \<Rightarrow> string \<Rightarrow> int \<Rightarrow> int \<Rightarrow> params \<Rightarrow> params" where
  "batch_params api_key sd ed cols offset bsize kw =
     dict_merge
       [(''api_key'', api_key), (''start'', opt_str sd), (''end'', opt_str ed),
        (''columns'', PStr cols), (''format'', PStr ''json''), (''offset'', PInt offset),
        (''limit'', PInt bsize)]
       kw"

text \<open>
  The inner loop of lines 128-134: \<open>response\<close> starts as \<open>None\<close>, the loop breaks at
  the first status 200 and otherwise sleeps and goes on; it returns the variable
  \<open>response\<close> as the loop leaves it.
\<close>

fun batch_loop ::
  "'s server \<Rightarrow> request \<Rightarrow> int \<Rightarrow> nat \<Rightarrow> response option \<Rightarrow> 's world \<Rightarrow> (error + response option) \<times> 's world" where
  "batch_loop srv rq delay 0 prev w = (Inr prev, w)"
| "batch_loop srv rq delay (Suc n) prev w =
     (case http_get srv rq w of
        (Inl e, w1) \<Rightarrow> (Inl (RequestException e), w1)
      | (Inr r, w1) \<Rightarrow>
          if status_code r = 200 then (Inr (Some r), w1)
          else
            (case time_sleep delay w1 of
               (Inl e, w2) \<Rightarrow> (Inl e, w2)
             | (Inr u, w2) \<Rightarrow> batch_loop srv rq delay n (Some r) w2))"

text \<open>
  The generator of \<open>get_report_batch\<close>. Nothing of the body runs before the first
  \<open>next\<close>; between two pages the generator is suspended at the \<open>yield\<close> of line 146,
  holding the dates, the offset already advanced and \<open>has_next_batch\<close>; after the end of
  the loop or an exception it is finished.
\<close>

datatype generator =
    Created
  | Suspended "string option" "string option" int bool
  | Finished

datatype event = Yield table | StopIteration | Raise error

text \<open>
  One pass of the \<open>while\<close> loop, lines 116-146, from the test of \<open>has_next_batch\<close> to the
  \<open>yield\<close>.
\<close>

definition batch_page ::
  "'s server \<Rightarrow> pyval \<Rightarrow> report_args \<Rightarrow> int \<Rightarrow> string option \<Rightarrow> string option \<Rightarrow> int \<Rightarrow> bool
     \<Rightarrow> 's world \<Rightarrow> (event \<times> generator) \<times> 's world" where
  "batch_page srv api_key a batch_size sd ed offset has_next_batch w =
     (if \<not> has_next_batch then ((StopIteration, Finished), w)
      else
        (case join_columns (columns a) of
           Inl e \<Rightarrow> ((Raise e, Finished), w)
         | Inr cols \<Rightarrow>
             (case batch_loop srv
                     \<lparr>url = ENDPOINT,
                      query = batch_params api_key sd ed cols offset batch_size (kwargs a)\<rparr>
                     (retry_interval a) (nat (max_retries a + 1)) None w of
                (Inl e, w1) \<Rightarrow> ((Raise e, Finished), w1)
              | (Inr None, w1) \<Rightarrow> ((Raise AttributeError, Finished), w1)
              | (Inr (Some r), w1) \<Rightarrow>
                  if status_code r \<noteq> 200
                  then ((Raise (ErrorBatch (status_code r) offset batch_size), Finished), w1)
                  else
                    (case response_field r ''results'' of
                       Inl e \<Rightarrow> ((Raise e, Finished), w1)
                     | Inr results \<Rightarrow>
                         (case py_len results of
                            Inl e \<Rightarrow> ((Raise e, Finished), w1)
                          | Inr n \<Rightarrow>
                              (case pd_DataFrame results of
                                 Inl e \<Rightarrow> ((Raise e, Finished), w1)
                               | Inr t \<Rightarrow>
                                   ((Yield t,
                                     Suspended sd ed (offset + batch_size) (int n = batch_size)),
                                    w1)))))))"

text \<open>\<open>next(gen)\<close>.\<close>

fun gen_next ::
  "clock \<Rightarrow> 's server \<Rightarrow> pyval \<Rightarrow> report_args \<Rightarrow> int \<Rightarrow> generator \<Rightarrow> 's world
     \<Rightarrow> (event \<times> generator) \<times> 's world" where
  "gen_next day_ago srv api_key a batch_size Created w =
     (case default_dates day_ago (start_date a) (end_date a) of
        (sd, ed) \<Rightarrow> batch_page srv api_key a batch_size sd ed 0 True w)"
| "gen_next day_ago srv api_key a batch_size (Suspended sd ed offset has_next_batch) w =
     batch_page srv api_key a batch_size sd ed offset has_next_batch w"
| "gen_next day_ago srv api_key a batch_size Finished w = ((StopIteration, Finished), w)"

text \<open>
  A consumer that pulls at most \<open>fuel\<close> times (\<open>for df in gen\<close>, cut after \<open>fuel\<close>
  pulls): the tables yielded so far and how the iteration stands: exhausted, failed, or
  still pending with the generator suspended.
\<close>

datatype ending = Exhausted | Failed error | Pending generator

fun consume ::
  "nat \<Rightarrow> clock \<Rightarrow> 's server \<Rightarrow> pyval \<Rightarrow> report_args \<Rightarrow> int \<Rightarrow> generator \<Rightarrow> 's world
     \<Rightarrow> (table list \<times> ending) \<times> 's world" where
  "consume 0 day_ago srv api_key a batch_size g w = (([], Pending g), w)"
| "consume (Suc fuel) day_ago srv api_key a batch_size g w =
     (case gen_next day_ago srv api_key a batch_size g w of
        ((StopIteration, g1), w1) \<Rightarrow> (([], Exhausted), w1)
      | ((Raise e, g1), w1) \<Rightarrow> (([], Failed e), w1)
      | ((Yield t, g1), w1) \<Rightarrow>
          (case consume fuel day_ago srv api_key a batch_size g1 w1 of
             ((ts, en), w2) \<Rightarrow> ((t # ts, en), w2)))"

definition get_report_batch :: generator where
  "get_report_batch = Created"

section \<open>UserAdRevenueReport\<close>


definition STATUS_RETRIES :: "int list" where
  "STATUS_RETRIES = [500, 502, 503, 504]"



record user_args =
  u_date :: string
  aggregated :: bool
  application :: string
  store_id :: string
  platform :: string
  u_kwargs :: params

text \<open>Lines 71-86: the parameters, with the application or the store id set by platform.\<close>

definition user_params :: "pyval \<Rightarrow> user_args \<Rightarrow> params" where
  "user_params api_key a =
     (let params = dict_merge
            [(''api_key'', api_key), (''date'', PStr (u_date a)),
             (''aggregated'', PBool (aggregated a)), (''platform'', PStr (platform a))]
            (u_kwargs a)
      in if platform a = ''android'' then dict_set ''application'' (PStr (application a)) params
         else if platform a = ''ios'' then dict_set ''store_id'' (PStr (store_id a)) params
         else params)"



section \<open>Test services\<close>

text \<open>
  Services without state: one that answers every request with the same status and no JSON
  body, one whose every request fails in the network, and one that serves a fixed dataset,
  honouring the \<open>offset\<close> and \<open>limit\<close> parameters of the request.
\<close>

definition status_server :: "int \<Rightarrow> unit server" where
  "status_server c = (\<lambda>s rq. (Inr \<lparr>status_code = c, body = None\<rparr>, s))"

definition broken_network :: "net_error \<Rightarrow> unit server" where
  "broken_network e = (\<lambda>s rq. (Inl e, s))"

fun int_param :: "params \<Rightarrow> string \<Rightarrow> nat option" where
  "int_param ps k = (case dict_get ps k of Some (PInt n) \<Rightarrow> Some (nat n) | _ \<Rightarrow> None)"

definition dataset_page :: "json list \<Rightarrow> params \<Rightarrow> json list" where
  "dataset_page ds ps =
     (let rest = (case int_param ps ''offset'' of None \<Rightarrow> ds | Some off \<Rightarrow> drop off ds)
      in case int_param ps ''limit'' of None \<Rightarrow> rest | Some lim \<Rightarrow> take lim rest)"

definition dataset_server :: "json list \<Rightarrow> unit server" where
  "dataset_server ds =
     (\<lambda>s rq. (Inr \<lparr>status_code = 200,
                     body = Some (JObj [(''results'', JArr (dataset_page ds (query rq)))])\<rparr>, s))"

definition w0 :: "unit world" where
  "w0 = \<lparr>server_state = (), trace = [], sleeps = []\<rparr>"

definition clock0 :: clock where
  "clock0 n = (if n = 1 then ''2023-05-16'' else ''2023-05-15'')"

definition args0 :: report_args where
  "args0 = \<lparr>start_date = Some ''2023-05-14'', end_date = Some ''2023-05-16'',
            columns = Some [''day'', ''impressions''], max_retries = 3, retry_interval = 0,
            kwargs = []\<rparr>"

definition last_status :: "'s world \<Rightarrow> int option" where
  "last_status w =
     (case rev (trace w) of
        [] \<Rightarrow> None
      | (rq, Inl e) # _ \<Rightarrow> None
      | (rq, Inr r) # _ \<Rightarrow> Some (status_code r))"

text \<open>The value sent under a key, request by request.\<close>

definition sent :: "'s world \<Rightarrow> string \<Rightarrow> pyval option list" where
  "sent w k = map (\<lambda>(rq, rp). dict_get (query rq) k) (trace w)"

text \<open>A call that passes \<open>api_key\<close> among the extra filters, and one that gives only a start date.\<close>

definition args_key :: report_args where
  "args_key = \<lparr>start_date = Some ''2023-05-14'', end_date = Some ''2023-05-16'',
               columns = Some [''day''], max_retries = 3, retry_interval = 0,
               kwargs = [(''api_key'', PStr ''other'')]\<rparr>"

definition args_start_only :: report_args where
  "args_start_only = \<lparr>start_date = Some ''2023-05-01'', end_date = None,
               columns = Some [''day''], max_retries = 3, retry_interval = 0, kwargs = []\<rparr>"

text \<open>A service that answers every request with a response whose status is not 200.\<close>

definition always_failing :: "'s server \<Rightarrow> bool" where
  "always_failing srv = (\<forall>s rq. \<exists>r. fst (srv s rq) = Inr r \<and> status_code r \<noteq> 200)"

text \<open>A dataset of five rows, and the page that a suspended generator fetches at an offset.\<close>

definition ds5 :: "json list" where
  "ds5 = [JStr ''a'', JStr ''b'', JStr ''c'', JStr ''d'', JStr ''e'']"



definition user_args0 :: user_args where
  "user_args0 = \<lparr>u_date = ''2023-05-14'', aggregated = True, application = ''com.example.app'',
                 store_id = '''', platform = ''android'', u_kwargs = []\<rparr>"


text \<open>The status received, request by request.\<close>

definition statuses :: "'s world \<Rightarrow> int option list" where
  "statuses w = map (\<lambda>(rq, rp). case rp of Inl e \<Rightarrow> None | Inr r \<Rightarrow> Some (status_code r)) (trace w)"



section \<open>Properties of the retry loops\<close>

lemma http_get_failing:
  assumes "always_failing srv"
  shows "\<exists>r s'. status_code r \<noteq> 200 \<and>
     http_get srv rq w = (Inr r, w\<lparr>server_state := s', trace := trace w @ [(rq, Inr r)]\<rparr>)"
proof -
  obtain r where r: "fst (srv (server_state w) rq) = Inr r" "status_code r \<noteq> 200"
    using assms unfolding always_failing_def by blast
  then show ?thesis
    by (cases "srv (server_state w) rq") (auto simp: http_get_def)
qed

lemma always_failing_status: "c \<noteq> 200 \<Longrightarrow> always_failing (status_server c)"
  by (simp add: always_failing_def status_server_def)

lemma report_loop_failing:
  assumes "always_failing srv" and "0 \<le> delay"
  shows "(case prev of None \<Rightarrow> True | Some p \<Rightarrow> last_status w = Some (status_code p))
    \<Longrightarrow> 0 < n \<or> prev \<noteq> None
    \<Longrightarrow> \<exists>c w'. report_loop srv rq delay n prev w = (Inl (ErrorStatus c), w')
          \<and> attempts w' = attempts w + n \<and> last_status w' = Some c"
proof (induction n arbitrary: prev w)
  case 0
  then show ?case by (cases prev) auto
next
  case (Suc n)
  obtain r s' where r: "status_code r \<noteq> 200"
    "http_get srv rq w = (Inr r, w\<lparr>server_state := s', trace := trace w @ [(rq, Inr r)]\<rparr>)"
    using http_get_failing[OF assms(1)] by blast
  let ?w2 = "w\<lparr>server_state := s', trace := trace w @ [(rq, Inr r)],
               sleeps := sleeps w @ [delay]\<rparr>"
  have "\<exists>c w'. report_loop srv rq delay n (Some r) ?w2 = (Inl (ErrorStatus c), w')
       \<and> attempts w' = attempts ?w2 + n \<and> last_status w' = Some c"
    by (rule Suc.IH) (simp_all add: last_status_def)
  then show ?case using r assms(2)
    by (auto simp: time_sleep_def attempts_def)
qed

lemma batch_loop_failing:
  assumes "always_failing srv" and "0 \<le> delay"
  shows "(case prev of None \<Rightarrow> True
          | Some p \<Rightarrow> status_code p \<noteq> 200 \<and> last_status w = Some (status_code p))
    \<Longrightarrow> 0 < n \<or> prev \<noteq> None
    \<Longrightarrow> \<exists>r w'. batch_loop srv rq delay n prev w = (Inr (Some r), w') \<and> status_code r \<noteq> 200
          \<and> attempts w' = attempts w + n \<and> last_status w' = Some (status_code r)"
proof (induction n arbitrary: prev w)
  case 0
  then show ?case by (cases prev) auto
next
  case (Suc n)
  obtain r s' where r: "status_code r \<noteq> 200"
    "http_get srv rq w = (Inr r, w\<lparr>server_state := s', trace := trace w @ [(rq, Inr r)]\<rparr>)"
    using http_get_failing[OF assms(1)] by blast
  let ?w2 = "w\<lparr>server_state := s', trace := trace w @ [(rq, Inr r)],
               sleeps := sleeps w @ [delay]\<rparr>"
  have "\<exists>r' w'. batch_loop srv rq delay n (Some r) ?w2 = (Inr (Some r'), w')
       \<and> status_code r' \<noteq> 200
       \<and> attempts w' = attempts ?w2 + n \<and> last_status w' = Some (status_code r')"
    by (rule Suc.IH) (simp_all add: last_status_def r)
  then show ?case using r assms(2)
    by (auto simp: time_sleep_def attempts_def)
qed

text \<open>
  C1. With \<open>max_retries = N \<ge> 0\<close> and a service that answers every request with a
  status other than 200, \<open>get_report\<close> and each page of \<open>get_report_batch\<close> make exactly
  \<open>N + 1\<close> requests and then fail with an exception that carries the status of the last
  response received.
\<close>

theorem exhausted_retries:
  assumes "always_failing srv" and "0 \<le> max_retries a" and "0 \<le> retry_interval a"
    and "columns a = Some cs"
  shows "(\<exists>c w'. get_report day_ago srv api_key a limit w = (Inl (ErrorStatus c), w')
            \<and> attempts w' = attempts w + nat (max_retries a + 1) \<and> last_status w' = Some c)
       \<and> (\<exists>c w'. batch_page srv api_key a batch_size sd ed offset True w
                     = ((Raise (ErrorBatch c offset batch_size), Finished), w')
            \<and> attempts w' = attempts w + nat (max_retries a + 1) \<and> last_status w' = Some c)"
proof
  have pos: "0 < nat (max_retries a + 1)" using assms(2) by simp
  obtain sd' ed' where d: "default_dates day_ago (start_date a) (end_date a) = (sd', ed')"
    by (cases "default_dates day_ago (start_date a) (end_date a)")
  show "\<exists>c w'. get_report day_ago srv api_key a limit w = (Inl (ErrorStatus c), w')
            \<and> attempts w' = attempts w + nat (max_retries a + 1) \<and> last_status w' = Some c"
    using report_loop_failing[OF assms(1,3), where prev=None and w=w
        and n="nat (max_retries a + 1)"] pos
    by (simp add: get_report_def d assms(4))
  let ?rq = "\<lparr>url = ENDPOINT,
     query = batch_params api_key sd ed (str_join '','' cs) offset batch_size (kwargs a)\<rparr>"
  obtain r w' where b:
     "batch_loop srv ?rq (retry_interval a) (nat (max_retries a + 1)) None w = (Inr (Some r), w')"
     "status_code r \<noteq> 200" "attempts w' = attempts w + nat (max_retries a + 1)"
     "last_status w' = Some (status_code r)"
    using batch_loop_failing[OF assms(1,3), where prev=None and w=w
        and n="nat (max_retries a + 1)" and rq="?rq"] pos by auto
  then show "\<exists>c w'. batch_page srv api_key a batch_size sd ed offset True w
                     = ((Raise (ErrorBatch c offset batch_size), Finished), w')
            \<and> attempts w' = attempts w + nat (max_retries a + 1) \<and> last_status w' = Some c"
    by (simp add: batch_page_def assms(4))
qed

text \<open>
  The scenario of the specification: \<open>max_retries = 3\<close>, \<open>retry_interval = 0\<close>, a service
  that always answers 503: four requests, then the failure with status 503.
\<close>

theorem exhausted_retries_witness:
  "always_failing (status_server 503) \<and> 0 \<le> max_retries args0 \<and> 0 \<le> retry_interval args0
   \<and> fst (get_report clock0 (status_server 503) (PStr ''k'') args0 100000 w0)
       = Inl (ErrorStatus 503)
   \<and> attempts (snd (get_report clock0 (status_server 503) (PStr ''k'') args0 100000 w0)) = 4
   \<and> fst (batch_page (status_server 503) (PStr ''k'') args0 2 None None 0 True w0)
       = (Raise (ErrorBatch 503 0 2), Finished)
   \<and> attempts (snd (batch_page (status_server 503) (PStr ''k'') args0 2 None None 0 True w0)) = 4"
proof -
  have f: "always_failing (status_server 503)" by (simp add: always_failing_status)
  have a: "0 \<le> max_retries args0" "0 \<le> retry_interval args0"
    "columns args0 = Some [''day'', ''impressions'']" by (simp_all add: args0_def)
  have ls: "last_status (snd (get_report clock0 (status_server 503) (PStr ''k'') args0 100000 w0))
     = Some 503"
    by code_simp
  have ls2: "last_status (snd (batch_page (status_server 503) (PStr ''k'') args0 2 None None 0
     True w0)) = Some 503"
    by code_simp
  have n: "nat (max_retries args0 + 1) = 4" "attempts w0 = 0"
    by (simp_all add: args0_def w0_def attempts_def)
  from exhausted_retries[OF f a, where day_ago=clock0 and api_key="PStr ''k''" and limit=100000
      and w=w0 and batch_size=2 and sd=None and ed=None and offset=0] ls ls2 n f a
  show ?thesis by auto
qed

section \<open>Counting requests\<close>







lemma batch_loop_None:
  "batch_loop srv rq delay n None w = (Inr (Some r), w') \<Longrightarrow> 0 < n"
  by (cases n) auto


section \<open>Pagination\<close>



section \<open>Retrying after a failed attempt\<close>







section \<open>Statuses and network errors\<close>




text \<open>
  C6 (as amended). In RevenueReport a connection or timeout error raised by a request is not
  caught: \<open>get_report\<close> and each page of \<open>get_report_batch\<close> fail with that error after
  the one request, without sleeping, whatever \<open>max_retries\<close> is.
\<close>

theorem network_error_propagates:
  assumes "\<forall>rq. fst (srv (server_state w) rq) = Inl e"
    and "0 \<le> max_retries a" and "columns a = Some cs"
  shows "fst (get_report day_ago srv api_key a limit w) = Inl (RequestException e)
       \<and> attempts (snd (get_report day_ago srv api_key a limit w)) = attempts w + 1
       \<and> sleeps (snd (get_report day_ago srv api_key a limit w)) = sleeps w
       \<and> fst (batch_page srv api_key a batch_size sd ed offset True w)
           = (Raise (RequestException e), Finished)
       \<and> attempts (snd (batch_page srv api_key a batch_size sd ed offset True w)) = attempts w + 1
       \<and> sleeps (snd (batch_page srv api_key a batch_size sd ed offset True w)) = sleeps w"
proof -
  obtain n where n: "nat (max_retries a + 1) = Suc n"
    using assms(2) by (cases "nat (max_retries a + 1)") auto
  obtain sd' ed' where d: "default_dates day_ago (start_date a) (end_date a) = (sd', ed')"
    by (cases "default_dates day_ago (start_date a) (end_date a)")
  have g: "\<And>rq. http_get srv rq w
      = (Inl e, w\<lparr>server_state := snd (srv (server_state w) rq), trace := trace w @ [(rq, Inl e)]\<rparr>)"
  proof -
    fix rq
    from assms(1) have "fst (srv (server_state w) rq) = Inl e" by blast
    then show "http_get srv rq w
      = (Inl e, w\<lparr>server_state := snd (srv (server_state w) rq), trace := trace w @ [(rq, Inl e)]\<rparr>)"
      by (cases "srv (server_state w) rq") (simp add: http_get_def)
  qed
  show ?thesis
    by (simp add: get_report_def batch_page_def d assms(3) n g attempts_def)
qed

theorem network_error_propagates_witness:
  "(\<forall>rq. fst (broken_network Timeout (server_state w0) rq) = Inl Timeout)
   \<and> 0 \<le> max_retries args0
   \<and> fst (get_report clock0 (broken_network Timeout) (PStr ''k'') args0 100000 w0)
       = Inl (RequestException Timeout)
   \<and> attempts (snd (get_report clock0 (broken_network Timeout) (PStr ''k'') args0 100000 w0))
       = attempts w0 + 1
   \<and> fst (batch_page (broken_network Timeout) (PStr ''k'') args0 2 None None 0 True w0)
       = (Raise (RequestException Timeout), Finished)"
proof -
  have h: "\<forall>rq. fst (broken_network Timeout (server_state w0) rq) = Inl Timeout"
    by (simp add: broken_network_def)
  have a: "0 \<le> max_retries args0" "columns args0 = Some [''day'', ''impressions'']"
    by (simp_all add: args0_def)
  from network_error_propagates[where srv="broken_network Timeout" and w=w0, OF h a,
      where day_ago=clock0 and api_key="PStr ''k''" and limit=100000 and batch_size=2
        and sd=None and ed=None and offset=0] h a
  show ?thesis by simp
qed

text \<open>
  With \<open>max_retries = 3\<close> and a network that fails with a connection error, \<open>get_report\<close>
  sends one request and raises the connection error.
\<close>

theorem network_error_retried_counterexample:
  "fst (get_report clock0 (broken_network ConnectionError) (PStr ''k'') args0 100000 w0)
     = Inl (RequestException ConnectionError)
   \<and> max_retries args0 = 3
   \<and> attempts (snd (get_report clock0 (broken_network ConnectionError) (PStr ''k'') args0 100000 w0)) = 1"
  by code_simp

section \<open>The per-user report\<close>



section \<open>Request parameters\<close>

lemma map_of_dict_set: "map_of (dict_set k v d) k' = (if k' = k then Some v else map_of d k')"
  by (induction d) auto

lemma dict_get_set: "dict_get (dict_set k v d) k' = (if k' = k then Some v else dict_get d k')"
  by (simp add: dict_get_def map_of_dict_set)

lemma dict_get_merge:
  "distinct (map fst kw) \<Longrightarrow>
   dict_get (dict_merge d kw) k = (case dict_get kw k of Some v \<Rightarrow> Some v | None \<Rightarrow> dict_get d k)"
proof (induction kw arbitrary: d)
  case Nil
  then show ?case by (simp add: dict_get_def)
next
  case (Cons p kw)
  obtain k' v' where p: "p = (k', v')" by (cases p)
  from Cons.prems p have d: "distinct (map fst kw)" and n: "k' \<notin> fst ` set kw" by auto
  from n have "map_of kw k' = None" by (simp add: map_of_eq_None_iff)
  then show ?case
    using Cons.IH[OF d, of "dict_set k' v' d"] p
    by (auto simp: dict_get_def map_of_dict_set split: option.splits)
qed


text \<open>
  C4 (as amended). The extra filters are merged last into the parameters and win over every
  computed entry with the same key, identity fields included: for each key, the value sent
  is the filter's when the filters have the key, and the computed one otherwise. So a
  filter named \<open>api_key\<close>, \<open>start\<close> or \<open>end\<close> replaces the credential or the date.
\<close>

theorem kwargs_override_computed_params:
  assumes "distinct (map fst kw)"
  shows "dict_get (report_params api_key sd ed cols limit kw) k
           = (case dict_get kw k of Some v \<Rightarrow> Some v
              | None \<Rightarrow> dict_get (report_params api_key sd ed cols limit []) k)
       \<and> dict_get (batch_params api_key sd ed cols offset batch_size kw) k
           = (case dict_get kw k of Some v \<Rightarrow> Some v
              | None \<Rightarrow> dict_get (batch_params api_key sd ed cols offset batch_size []) k)
       \<and> dict_get (user_params api_key (ua\<lparr>u_kwargs := kw\<rparr>)) ''api_key''
           = (case dict_get kw ''api_key'' of Some v \<Rightarrow> Some v | None \<Rightarrow> Some api_key)"
proof (intro conjI)
  show "dict_get (report_params api_key sd ed cols limit kw) k
           = (case dict_get kw k of Some v \<Rightarrow> Some v
              | None \<Rightarrow> dict_get (report_params api_key sd ed cols limit []) k)"
    by (simp add: report_params_def dict_get_merge[OF assms] cong: option.case_cong)
  show "dict_get (batch_params api_key sd ed cols offset batch_size kw) k
           = (case dict_get kw k of Some v \<Rightarrow> Some v
              | None \<Rightarrow> dict_get (batch_params api_key sd ed cols offset batch_size []) k)"
    by (simp add: batch_params_def dict_get_merge[OF assms] cong: option.case_cong)
  show "dict_get (user_params api_key (ua\<lparr>u_kwargs := kw\<rparr>)) ''api_key''
           = (case dict_get kw ''api_key'' of Some v \<Rightarrow> Some v | None \<Rightarrow> Some api_key)"
    by (simp add: user_params_def Let_def dict_get_set dict_get_merge[OF assms]
          split: option.splits)
       (simp add: dict_get_def)
qed

theorem kwargs_override_computed_params_witness:
  "distinct (map fst [(''api_key'', PStr ''other''), (''filter_country'', PStr ''vn'')])
   \<and> dict_get (report_params (PStr ''k'') (Some ''2023-05-14'') (Some ''2023-05-16'') ''day'' 100
       [(''api_key'', PStr ''other''), (''filter_country'', PStr ''vn'')]) ''api_key''
     = Some (PStr ''other'')"
proof -
  have d: "distinct (map fst [(''api_key'', PStr ''other''), (''filter_country'', PStr ''vn'')])"
    by simp
  have g: "dict_get [(''api_key'', PStr ''other''), (''filter_country'', PStr ''vn'')] ''api_key''
     = Some (PStr ''other'')" by (simp add: dict_get_def)
  from kwargs_override_computed_params[OF d, where k="''api_key''" and api_key="PStr ''k''"
      and sd="Some ''2023-05-14''" and ed="Some ''2023-05-16''" and cols="''day''" and limit=100
      and offset=0 and batch_size=2 and ua=user_args0]
  have "dict_get (report_params (PStr ''k'') (Some ''2023-05-14'') (Some ''2023-05-16'') ''day'' 100
       [(''api_key'', PStr ''other''), (''filter_country'', PStr ''vn'')]) ''api_key''
     = Some (PStr ''other'')"
    unfolding g by simp
  with d show ?thesis by simp
qed

text \<open>
  A call with \<open>api_key="other"\<close> and \<open>start="1999-01-01"\<close> among the filters sends these
  instead of the credential of the object and the start date.
\<close>

theorem identity_fields_counterexample:
  "dict_get (report_params (PStr ''k'') (Some ''2023-05-14'') (Some ''2023-05-16'') ''day'' 100
       [(''api_key'', PStr ''other''), (''start'', PStr ''1999-01-01'')]) ''api_key''
     = Some (PStr ''other'')
   \<and> dict_get (report_params (PStr ''k'') (Some ''2023-05-14'') (Some ''2023-05-16'') ''day'' 100
       [(''api_key'', PStr ''other''), (''start'', PStr ''1999-01-01'')]) ''start''
     = Some (PStr ''1999-01-01'')
   \<and> sent (snd (get_report clock0 (dataset_server ds5) (PStr ''k'') args_key 100 w0)) ''api_key''
     = [Some (PStr ''other'')]"
  by code_simp

section \<open>Default dates\<close>

lemma batch_page_args:
  assumes "columns a' = columns a" and "kwargs a' = kwargs a"
    and "retry_interval a' = retry_interval a" and "max_retries a' = max_retries a"
  shows "batch_page srv api_key a' batch_size sd ed offset hn w
       = batch_page srv api_key a batch_size sd ed offset hn w"
  unfolding batch_page_def assms by (rule refl)

lemma get_report_dates:
  assumes "default_dates day_ago (start_date a) (end_date a) = (sd, ed)"
  shows "get_report day_ago srv api_key a limit w
     = (case join_columns (columns a) of
          Inl e \<Rightarrow> (Inl e, w)
        | Inr cols \<Rightarrow>
            report_loop srv
              \<lparr>url = ENDPOINT, query = report_params api_key sd ed cols limit (kwargs a)\<rparr>
              (retry_interval a) (nat (max_retries a + 1)) None w)"
  unfolding get_report_def assms by simp

lemma get_report_args:
  assumes "default_dates day_ago (start_date a') (end_date a')
      = default_dates day_ago (start_date a) (end_date a)"
    and "columns a' = columns a" and "kwargs a' = kwargs a"
    and "retry_interval a' = retry_interval a" and "max_retries a' = max_retries a"
  shows "get_report day_ago srv api_key a' limit w = get_report day_ago srv api_key a limit w"
  unfolding get_report_def assms by (rule refl)

lemma default_dates_missing:
  "falsy sd \<or> falsy ed \<Longrightarrow> default_dates day_ago sd ed = (Some (day_ago 2), Some (day_ago 1))"
  by (simp add: default_dates_def)

lemma default_dates_given:
  "\<not> falsy sd \<Longrightarrow> \<not> falsy ed \<Longrightarrow> default_dates day_ago sd ed = (sd, ed)"
  by (simp add: default_dates_def)

text \<open>
  C10. In \<open>get_report\<close> and in \<open>get_report_batch\<close>, when either date is missing (\<open>None\<close> or
  empty) both dates become the defaults, two days and one day before now, and the call is
  the same as one that gives no date at all: the date the caller did give is discarded.
  When both dates are given and not empty, they are the dates of the request.
\<close>

theorem dates_default_together:
  "(falsy (start_date a) \<or> falsy (end_date a) \<longrightarrow>
      default_dates day_ago (start_date a) (end_date a) = (Some (day_ago 2), Some (day_ago 1))
    \<and> get_report day_ago srv api_key a limit w
        = get_report day_ago srv api_key (a\<lparr>start_date := None, end_date := None\<rparr>) limit w
    \<and> gen_next day_ago srv api_key a batch_size Created w
        = gen_next day_ago srv api_key (a\<lparr>start_date := None, end_date := None\<rparr>) batch_size
            Created w)
   \<and> (\<not> falsy (start_date a) \<and> \<not> falsy (end_date a) \<longrightarrow>
      default_dates day_ago (start_date a) (end_date a) = (start_date a, end_date a)
    \<and> get_report day_ago srv api_key a limit w
        = (case join_columns (columns a) of
             Inl e \<Rightarrow> (Inl e, w)
           | Inr cols \<Rightarrow>
               report_loop srv
                 \<lparr>url = ENDPOINT,
                  query = report_params api_key (start_date a) (end_date a) cols limit (kwargs a)\<rparr>
                 (retry_interval a) (nat (max_retries a + 1)) None w)
    \<and> gen_next day_ago srv api_key a batch_size Created w
        = batch_page srv api_key a batch_size (start_date a) (end_date a) 0 True w)"
proof (intro conjI impI)
  let ?a = "a\<lparr>start_date := None, end_date := None\<rparr>"
  have n: "default_dates day_ago (start_date ?a) (end_date ?a) = (Some (day_ago 2), Some (day_ago 1))"
    by (simp add: default_dates_def)
  assume m: "falsy (start_date a) \<or> falsy (end_date a)"
  show d: "default_dates day_ago (start_date a) (end_date a) = (Some (day_ago 2), Some (day_ago 1))"
    by (rule default_dates_missing[OF m])
  show "get_report day_ago srv api_key a limit w = get_report day_ago srv api_key ?a limit w"
    by (rule get_report_args[symmetric]) (use m in \<open>simp_all add: default_dates_def\<close>)
  have "batch_page srv api_key ?a batch_size (Some (day_ago 2)) (Some (day_ago 1)) 0 True w
      = batch_page srv api_key a batch_size (Some (day_ago 2)) (Some (day_ago 1)) 0 True w"
    by (rule batch_page_args) simp_all
  then show "gen_next day_ago srv api_key a batch_size Created w
        = gen_next day_ago srv api_key ?a batch_size Created w"
    by (simp only: gen_next.simps d n prod.case)
next
  assume g: "\<not> falsy (start_date a) \<and> \<not> falsy (end_date a)"
  then show d: "default_dates day_ago (start_date a) (end_date a) = (start_date a, end_date a)"
    by (simp add: default_dates_given)
  show "get_report day_ago srv api_key a limit w
        = (case join_columns (columns a) of
             Inl e \<Rightarrow> (Inl e, w)
           | Inr cols \<Rightarrow>
               report_loop srv
                 \<lparr>url = ENDPOINT,
                  query = report_params api_key (start_date a) (end_date a) cols limit (kwargs a)\<rparr>
                 (retry_interval a) (nat (max_retries a + 1)) None w)"
    by (rule get_report_dates[OF d])
  show "gen_next day_ago srv api_key a batch_size Created w
        = batch_page srv api_key a batch_size (start_date a) (end_date a) 0 True w"
    by (simp only: gen_next.simps d prod.case)
qed

theorem dates_default_together_witness:
  "falsy (end_date args_start_only)
   \<and> default_dates clock0 (start_date args_start_only) (end_date args_start_only)
       = (Some ''2023-05-15'', Some ''2023-05-16'')
   \<and> get_report clock0 (dataset_server ds5) (PStr ''k'') args_start_only 100 w0
       = get_report clock0 (dataset_server ds5) (PStr ''k'')
           (args_start_only\<lparr>start_date := None, end_date := None\<rparr>) 100 w0
   \<and> sent (snd (get_report clock0 (dataset_server ds5) (PStr ''k'') args_start_only 100 w0))
         ''start'' = [Some (PStr ''2023-05-15'')]
   \<and> \<not> falsy (start_date args0) \<and> \<not> falsy (end_date args0)
   \<and> default_dates clock0 (start_date args0) (end_date args0)
       = (Some ''2023-05-14'', Some ''2023-05-16'')"
proof -
  have m: "falsy (end_date args_start_only)" by (simp add: args_start_only_def)
  have g: "\<not> falsy (start_date args0)" "\<not> falsy (end_date args0)" by (simp_all add: args0_def)
  have c: "clock0 2 = ''2023-05-15''" "clock0 1 = ''2023-05-16''" by (simp_all add: clock0_def)
  have s: "sent (snd (get_report clock0 (dataset_server ds5) (PStr ''k'') args_start_only 100 w0))
         ''start'' = [Some (PStr ''2023-05-15'')]"
    by code_simp
  have f: "start_date args0 = Some ''2023-05-14''" "end_date args0 = Some ''2023-05-16''"
    by (simp_all add: args0_def)
  from dates_default_together[where a=args_start_only and day_ago=clock0
      and srv="dataset_server ds5" and api_key="PStr ''k''" and limit=100 and w=w0
      and batch_size=2]
    dates_default_together[where a=args0 and day_ago=clock0
      and srv="dataset_server ds5" and api_key="PStr ''k''" and limit=100 and w=w0
      and batch_size=2] m g c s f
  show ?thesis by simp
qed

section \<open>Pagination against a fixed dataset\<close>












text \<open>
  C8. The scenario of the specification: page size 2 and a dataset of five rows. The
  paginated fetch sends three requests, at offsets 0, 2 and 4, each answered with status
  200; it yields three tables of 2, 2 and 1 rows and then stops: the fourth pull ends the
  iteration without a request, and pulling more changes nothing.
\<close>

theorem five_rows_in_pages_of_two:
  "fst (consume 4 clock0 (dataset_server ds5) (PStr ''k'') args0 2 get_report_batch w0)
     = ([DataFrame [JStr ''a'', JStr ''b''], DataFrame [JStr ''c'', JStr ''d''],
         DataFrame [JStr ''e'']], Exhausted)
   \<and> map nrows (fst (fst (consume 4 clock0 (dataset_server ds5) (PStr ''k'') args0 2
                              get_report_batch w0))) = [2, 2, 1]
   \<and> sent (snd (consume 4 clock0 (dataset_server ds5) (PStr ''k'') args0 2 get_report_batch w0))
        ''offset'' = [Some (PInt 0), Some (PInt 2), Some (PInt 4)]
   \<and> statuses (snd (consume 4 clock0 (dataset_server ds5) (PStr ''k'') args0 2
                       get_report_batch w0)) = [Some 200, Some 200, Some 200]
   \<and> consume 9 clock0 (dataset_server ds5) (PStr ''k'') args0 2 get_report_batch w0
     = consume 4 clock0 (dataset_server ds5) (PStr ''k'') args0 2 get_report_batch w0"
  by code_simp

section \<open>Values in the tables\<close>




end
